theory Spec2Isabelle
  imports Main "HOL-Library.Multiset" "HOL-Library.Word"
begin

section \<open>Server-Timing middleware: the \<open>ServerTiming\<close> class\<close>

text \<open>
  This theory embeds the class \<open>ServerTiming\<close> and the Express middleware built on it,
  in the version that has hooks, \<open>calculateDurationSmart\<close> and the \<open>sendHeaders\<close>
  option. Strings are byte strings (the form in which Node hands over header values),
  timestamps are the pairs \<open>[seconds, nanoseconds]\<close> of \<open>process.hrtime()\<close>, and the
  numbers that occur as durations and hook indices are integers within the range in
  which a JavaScript number is exact and is printed with all its digits (below \<open>2^53\<close>
  in absolute value).
\<close>

subsection \<open>Characters and numbers\<close>

definition dquote :: char where
  "dquote = CHR 0x22"

definition squote :: char where
  "squote = CHR 0x27"

definition digits :: string where
  "digits = ''0123456789''"

definition lower_letters :: string where
  "lower_letters = ''abcdefghijklmnopqrstuvwxyz''"

definition upper_letters :: string where
  "upper_letters = ''ABCDEFGHIJKLMNOPQRSTUVWXYZ''"

text \<open>\<open>\d\<close> in a regular expression: an ASCII digit.\<close>

definition is_digit :: "char \<Rightarrow> bool" where
  "is_digit c \<longleftrightarrow> c \<in> set digits"

definition digit_value :: "char \<Rightarrow> nat" where
  "digit_value c = length (takeWhile (\<lambda>d. d \<noteq> c) digits)"

text \<open>\<open>parseInt(ds, 10)\<close> on a string of decimal digits.\<close>

definition parseInt :: "string \<Rightarrow> nat" where
  "parseInt ds = foldl (\<lambda>a c. 10 * a + digit_value c) 0 ds"

text \<open>
  The text that a template literal produces for a whole number whose digits a
  JavaScript number holds exactly (every whole number up to \<open>2^53\<close> in absolute
  value): its decimal digits, with a leading minus sign below zero. Such are the
  durations computed from timestamps, which stay below \<open>2^45\<close>. Fractions, and
  numbers from \<open>10^21\<close> on, which are printed with an exponent, are not numbers of
  this model.
\<close>

fun show_nat :: "nat \<Rightarrow> string" where
  "show_nat n = (if n < 10 then [digits ! n] else show_nat (n div 10) @ [digits ! (n mod 10)])"

definition show_int :: "int \<Rightarrow> string" where
  "show_int i = (if i < 0 then CHR ''-'' # show_nat (nat (- i)) else show_nat (nat i))"

subsection \<open>Timestamps\<close>

text \<open>
  \<open>process.hrtime()\<close> splits a 64-bit count of nanoseconds into whole seconds, which
  are below \<open>2^64 / 10^9 < 2^35\<close>, and the remaining nanoseconds, which are below
  \<open>10^9 < 2^30\<close>.
\<close>

type_synonym hrtime = "35 word \<times> 30 word"

text \<open>
  The arithmetic on timestamps is that of double-precision numbers: every product and
  sum is rounded to 53 significant bits, to the nearest value, a tie going to the even
  one. The values that occur are multiples of \<open>2^-72\<close>; they are held as their
  numerators, natural numbers counting units of \<open>2^-72\<close>. Rounding to 53 significant
  bits does not depend on the unit.
\<close>

fun bit_length :: "nat \<Rightarrow> nat" where
  "bit_length n = (if n = 0 then 0 else 1 + bit_length (n div 2))"

definition round53 :: "nat \<Rightarrow> nat" where
  "round53 n =
     (if bit_length n \<le> 53 then n
      else
        let k = bit_length n - 53; q = n div 2 ^ k; r = n mod 2 ^ k; half = 2 ^ (k - 1)
        in if r < half \<or> (r = half \<and> even q) then q * 2 ^ k else (q + 1) * 2 ^ k)"

text \<open>The literal \<open>1e-6\<close>: the double nearest to \<open>10^-6\<close>, in units of \<open>2^-72\<close>.\<close>

definition double_1e_6 :: nat where
  "double_1e_6 = 4722366482869645"

text \<open>
  \<open>parseInt(t[0] * 1e3 + t[1] * 1e-6, 10)\<close>: the product with \<open>1e3\<close> (a whole
  number), the product with \<open>1e-6\<close> and their sum, each rounded; then the digits in
  front of the decimal point of the sum, which is below \<open>10^21\<close> and is therefore
  printed without an exponent.
\<close>

definition toMillis :: "hrtime \<Rightarrow> int" where
  "toMillis t =
     (let seconds = round53 (unat (fst t) * 1000);
          fraction = round53 (unat (snd t) * double_1e_6);
          total = round53 (seconds * 2 ^ 72 + fraction)
      in int (total div 2 ^ 72))"

text \<open>\<open>Math.abs(toTime - fromTime)\<close>; both are whole numbers below \<open>2^45\<close>.\<close>

definition calculateDuration :: "hrtime \<Rightarrow> hrtime \<Rightarrow> int" where
  "calculateDuration from_t to_t = \<bar>toMillis to_t - toMillis from_t\<bar>"

subsection \<open>Metric names\<close>

text \<open>The character class of \<open>/^[!#$%&'*+\-.^_`|~0-9a-z]+$/gi\<close>, letters in both cases.\<close>

definition token_chars :: string where
  "token_chars = ''!#$%&'' @ [squote] @ ''*+-.^_`|~'' @ digits @ lower_letters @ upper_letters"

definition nameIsValid :: "string \<Rightarrow> bool" where
  "nameIsValid name \<longleftrightarrow> name \<noteq> [] \<and> list_all (\<lambda>c. c \<in> set token_chars) name"

subsection \<open>Metrics\<close>

text \<open>
  One metric: the object stored under a name in \<open>this.metrics\<close>. A field that is
  absent or \<open>undefined\<close> is \<open>None\<close>.
\<close>

record metric =
  m_from :: "hrtime option"
  m_to :: "hrtime option"
  m_description :: "string option"
  m_duration :: "int option"

definition no_fields :: metric where
  "no_fields = \<lparr>m_from = None, m_to = None, m_description = None, m_duration = None\<rparr>"

text \<open>The property written by \<open>set\<close>: its key \<open>field\<close> together with its \<open>value\<close>.\<close>

datatype field = From hrtime | To hrtime | Description string | Duration int

fun assign :: "field \<Rightarrow> metric \<Rightarrow> metric" where
  "assign (From t) m = m\<lparr>m_from := Some t\<rparr>"
| "assign (To t) m = m\<lparr>m_to := Some t\<rparr>"
| "assign (Description d) m = m\<lparr>m_description := Some d\<rparr>"
| "assign (Duration n) m = m\<lparr>m_duration := Some n\<rparr>"

text \<open>
  \<open>this.metrics\<close> is an object created by \<open>{}\<close>: its own properties in creation order,
  and its prototype. \<open>proto = None\<close> is the initial prototype \<open>Object.prototype\<close>;
  \<open>proto = Some p\<close> is the object \<open>p\<close> installed by an assignment to the key
  \<open>__proto__\<close>, which reaches the accessor of \<open>Object.prototype\<close>.
\<close>

type_synonym entries = "(string \<times> metric) list"

record metrics_obj =
  own :: entries
  proto :: "metric option"

definition empty_metrics :: metrics_obj where
  "empty_metrics = \<lparr>own = [], proto = None\<rparr>"

text \<open>
  The other property names that every object inherits from \<open>Object.prototype\<close>; each
  is a writable method.
\<close>

definition object_prototype_methods :: "string list" where
  "object_prototype_methods =
     [''constructor'', ''__defineGetter__'', ''__defineSetter__'', ''hasOwnProperty'',
      ''__lookupGetter__'', ''__lookupSetter__'', ''isPrototypeOf'',
      ''propertyIsEnumerable'', ''toString'', ''valueOf'', ''toLocaleString'']"

text \<open>
  What \<open>this.metrics[name]\<close> evaluates to: nothing, a metric of the session, the
  prototype of \<open>this.metrics\<close> (through the key \<open>__proto__\<close>), a string or number
  inherited from an installed prototype, or another inherited object (a method of
  \<open>Object.prototype\<close>, a timestamp array of an installed prototype).
\<close>

datatype resolved =
  Undefined
  | OwnMetric metric
  | InstalledProto metric
  | ObjectPrototype
  | Primitive
  | OtherObject

definition inherited :: "metric option \<Rightarrow> string \<Rightarrow> resolved" where
  "inherited p name =
     (case p of
        None \<Rightarrow>
          if name = ''__proto__'' then ObjectPrototype
          else if name \<in> set object_prototype_methods then OtherObject
          else Undefined
      | Some q \<Rightarrow>
          if name = ''__proto__'' then InstalledProto q
          else if name = ''description'' then
            (case m_description q of None \<Rightarrow> Undefined | Some _ \<Rightarrow> Primitive)
          else if name = ''duration'' then
            (case m_duration q of None \<Rightarrow> Undefined | Some _ \<Rightarrow> Primitive)
          else if name = ''from'' \<and> m_from q \<noteq> None then OtherObject
          else if name = ''to'' \<and> m_to q \<noteq> None then OtherObject
          else if name \<in> set object_prototype_methods then OtherObject
          else Undefined)"

definition resolve :: "metrics_obj \<Rightarrow> string \<Rightarrow> resolved" where
  "resolve ms name =
     (case map_of (own ms) name of
        Some m \<Rightarrow> OwnMetric m
      | None \<Rightarrow> inherited (proto ms) name)"

text \<open>
  Assignment to an own property: an existing key keeps its place, a new key goes to
  the end.
\<close>

fun put :: "string \<Rightarrow> metric \<Rightarrow> entries \<Rightarrow> entries" where
  "put k v [] = [(k, v)]"
| "put k v (p # ps) = (if fst p = k then (k, v) # ps else p # put k v ps)"

subsection \<open>Hooks and the session\<close>

record hook =
  hook_name :: string
  callback :: "entries \<Rightarrow> entries"
  index :: int

record session =
  oldSpecification :: bool
  initialized :: hrtime
  sendHeaders :: bool
  metrics :: metrics_obj
  hooks :: "hook list"

text \<open>
  The outcome of a method call. An exception carries the state in which it leaves the
  objects. \<open>Escapes\<close> is the one effect that the session does not contain: a write to
  \<open>Object.prototype\<close> itself, shared by every object of the process.
\<close>

datatype error = InvalidName | HeadersSent | TypeError

datatype 'a outcome = Returns 'a | Throws error 'a | Escapes

subsection \<open>The constructor\<close>

text \<open>
  Canonical form of a character under the flag \<open>i\<close>: its upper case. Only the
  letters matter here, since the patterns hold ASCII characters only and no other
  character is canonicalised to one of them.
\<close>

definition canon :: "char \<Rightarrow> char" where
  "canon c = (case map_of (zip lower_letters upper_letters) c of Some u \<Rightarrow> u | None \<Rightarrow> c)"

text \<open>Matching a literal pattern at the start of the input, ignoring case.\<close>

fun ci_prefix :: "string \<Rightarrow> string \<Rightarrow> string option" where
  "ci_prefix [] s = Some s"
| "ci_prefix (p # ps) [] = None"
| "ci_prefix (p # ps) (c # cs) = (if canon c = canon p then ci_prefix ps cs else None)"

text \<open>The characters that \<open>.\<close> does not match.\<close>

definition line_terminator :: "char \<Rightarrow> bool" where
  "line_terminator c \<longleftrightarrow> c = CHR 0x0A \<or> c = CHR 0x0D"

text \<open>
  \<open>/ Chrome\/([\d]+)./gi\<close> tried at the start of the input; the result is the text of
  group 1. The group takes every digit that follows the token; when no character is
  left for \<open>.\<close> there, or a line terminator is, the group gives back its last digit
  to \<open>.\<close>, and needs another one to remain.
\<close>

definition chrome_at :: "string \<Rightarrow> string option" where
  "chrome_at s =
     (case ci_prefix '' Chrome/'' s of
        None \<Rightarrow> None
      | Some rest \<Rightarrow>
          (let ds = takeWhile is_digit rest; after = dropWhile is_digit rest
           in if ds = [] then None
              else if after \<noteq> [] \<and> \<not> line_terminator (hd after) then Some ds
              else if 2 \<le> length ds then Some (butlast ds)
              else None))"

text \<open>\<open>exec\<close>: the match at the leftmost position that has one.\<close>

fun chromeData :: "string \<Rightarrow> string option" where
  "chromeData [] = None"
| "chromeData (c # cs) =
     (case chrome_at (c # cs) of Some ds \<Rightarrow> Some ds | None \<Rightarrow> chromeData cs)"

text \<open>\<open>userAgent.indexOf(pat) > -1\<close>.\<close>

fun indexOf_found :: "string \<Rightarrow> string \<Rightarrow> bool" where
  "indexOf_found pat [] = (pat = [])"
| "indexOf_found pat (c # cs) = (take (length pat) (c # cs) = pat \<or> indexOf_found pat cs)"

definition isChrome :: "string \<Rightarrow> bool" where
  "isChrome userAgent = indexOf_found '' Chrome/'' userAgent"

definition chromeVersion :: "string \<Rightarrow> nat option" where
  "chromeVersion userAgent = map_option parseInt (chromeData userAgent)"

text \<open>\<open>isChrome && chromeVersion > 64\<close>, where \<open>null > 64\<close> is false.\<close>

definition isCanary :: "string \<Rightarrow> bool" where
  "isCanary userAgent \<longleftrightarrow>
     isChrome userAgent \<and> (case chromeVersion userAgent of None \<Rightarrow> False | Some v \<Rightarrow> 64 < v)"

text \<open>\<open>new ServerTiming(userAgent, sendHeaders)\<close>, at the time \<open>t0\<close> of the clock.\<close>

definition ServerTiming :: "string \<Rightarrow> bool \<Rightarrow> hrtime \<Rightarrow> session" where
  "ServerTiming userAgent send t0 =
     \<lparr>oldSpecification = (isChrome userAgent \<and> \<not> isCanary userAgent),
      initialized = t0,
      sendHeaders = send,
      metrics = empty_metrics,
      hooks = []\<rparr>"

subsection \<open>Hook registry\<close>

definition addHook :: "string \<Rightarrow> (entries \<Rightarrow> entries) \<Rightarrow> int option \<Rightarrow> session \<Rightarrow> session" where
  "addHook name cb callbackIndex s =
     s\<lparr>hooks := hooks s @
        [\<lparr>hook_name = name, callback = cb,
          index = (case callbackIndex of None \<Rightarrow> int (length (hooks s)) + 1 | Some i \<Rightarrow> i)\<rparr>]\<rparr>"

definition removeHook :: "string \<Rightarrow> session \<Rightarrow> session" where
  "removeHook name s = s\<lparr>hooks := filter (\<lambda>h. hook_name h \<noteq> name) (hooks s)\<rparr>"

subsection \<open>Recording\<close>

text \<open>
  \<open>set(name, field, value)\<close>. After the check of the name, \<open>this.metrics[name]\<close>
  decides: \<open>undefined\<close> creates the metric; anything else receives the property. A
  string or number refuses it (class bodies are strict code); an inherited method or
  array takes it without any effect on the session.
\<close>

definition set_op :: "string \<Rightarrow> field \<Rightarrow> session \<Rightarrow> session outcome" where
  "set_op name fv s =
     (if \<not> nameIsValid name then Throws InvalidName s
      else case resolve (metrics s) name of
        Undefined \<Rightarrow>
          Returns (s\<lparr>metrics := (metrics s)\<lparr>own := put name (assign fv no_fields) (own (metrics s))\<rparr>\<rparr>)
      | OwnMetric m \<Rightarrow>
          Returns (s\<lparr>metrics := (metrics s)\<lparr>own := put name (assign fv m) (own (metrics s))\<rparr>\<rparr>)
      | InstalledProto q \<Rightarrow>
          Returns (s\<lparr>metrics := (metrics s)\<lparr>proto := Some (assign fv q)\<rparr>\<rparr>)
      | ObjectPrototype \<Rightarrow> Escapes
      | Primitive \<Rightarrow> Throws TypeError s
      | OtherObject \<Rightarrow> Returns s)"

definition description :: "string \<Rightarrow> string \<Rightarrow> session \<Rightarrow> session outcome" where
  "description name d s = set_op name (Description d) s"

definition duration :: "string \<Rightarrow> int \<Rightarrow> session \<Rightarrow> session outcome" where
  "duration name n s = set_op name (Duration n) s"

text \<open>\<open>if (description) ...\<close>: an omitted description and the empty string are skipped.\<close>

definition then_describe :: "string \<Rightarrow> string option \<Rightarrow> session outcome \<Rightarrow> session outcome" where
  "then_describe name d r =
     (case r of
        Returns s \<Rightarrow>
          (case d of None \<Rightarrow> Returns s
           | Some t \<Rightarrow> if t = [] then Returns s else description name t s)
      | Throws e s \<Rightarrow> Throws e s
      | Escapes \<Rightarrow> Escapes)"

text \<open>\<open>from(name, description)\<close> and \<open>to(name, description)\<close>; \<open>t\<close> is \<open>process.hrtime()\<close>.\<close>

definition from_op :: "string \<Rightarrow> string option \<Rightarrow> hrtime \<Rightarrow> session \<Rightarrow> session outcome" where
  "from_op name d t s = then_describe name d (set_op name (From t) s)"

definition to_op :: "string \<Rightarrow> string option \<Rightarrow> hrtime \<Rightarrow> session \<Rightarrow> session outcome" where
  "to_op name d t s = then_describe name d (set_op name (To t) s)"

text \<open>
  \<open>add(name, description, duration = 0.0)\<close>: the assignment \<open>this.metrics[name] = {...}\<close>
  writes an own property, except for the key \<open>__proto__\<close> when it is not an own one:
  then the new object becomes the prototype of \<open>this.metrics\<close>.
\<close>

definition add :: "string \<Rightarrow> string option \<Rightarrow> int option \<Rightarrow> session \<Rightarrow> session outcome" where
  "add name d n s =
     (if \<not> nameIsValid name then Throws InvalidName s
      else
        let m = \<lparr>m_from = None, m_to = None, m_description = d,
                 m_duration = Some (case n of None \<Rightarrow> 0 | Some v \<Rightarrow> v)\<rparr>
        in if name = ''__proto__'' \<and> map_of (own (metrics s)) name = None
           then Returns (s\<lparr>metrics := (metrics s)\<lparr>proto := Some m\<rparr>\<rparr>)
           else Returns (s\<lparr>metrics := (metrics s)\<lparr>own := put name m (own (metrics s))\<rparr>\<rparr>))"

subsection \<open>Header values\<close>

text \<open>\<open>oldStyle\<close> and \<open>newStyle\<close>: a part is left out when its argument is \<open>undefined\<close>.\<close>

definition oldStyle :: "string \<Rightarrow> string option \<Rightarrow> int option \<Rightarrow> string" where
  "oldStyle name d n =
     name @ (case n of None \<Rightarrow> [] | Some v \<Rightarrow> ''='' @ show_int v)
          @ (case d of None \<Rightarrow> [] | Some t \<Rightarrow> ''; '' @ [dquote] @ t @ [dquote])"

definition newStyle :: "string \<Rightarrow> string option \<Rightarrow> int option \<Rightarrow> string" where
  "newStyle name d n =
     name @ (case d of None \<Rightarrow> [] | Some t \<Rightarrow> '';desc='' @ [dquote] @ t @ [dquote])
          @ (case n of None \<Rightarrow> [] | Some v \<Rightarrow> '';dur='' @ show_int v)"

text \<open>
  \<open>duration || ServerTiming.calculateDuration(from, to)\<close>: the left operand is taken
  when it is truthy, that is, a number other than zero.
\<close>

definition duration_or :: "int option \<Rightarrow> int \<Rightarrow> int" where
  "duration_or n computed = (case n of None \<Rightarrow> computed | Some v \<Rightarrow> if v = 0 then computed else v)"

text \<open>\<open>buildHeader({ name, description, duration, from, to }, oldSpecification)\<close>.\<close>

definition buildHeader ::
  "string \<Rightarrow> string option \<Rightarrow> int option \<Rightarrow> hrtime \<Rightarrow> hrtime \<Rightarrow> bool \<Rightarrow> string" where
  "buildHeader name d n from_t to_t old =
     (let time = duration_or n (calculateDuration from_t to_t)
      in if old then oldStyle name d (Some time) else newStyle name d (Some time))"

text \<open>
  \<open>calculateDurationSmart(metric)\<close>; \<open>now\<close> is the clock, read when the metric has no
  end time.
\<close>

definition calculateDurationSmart :: "session \<Rightarrow> hrtime \<Rightarrow> metric \<Rightarrow> int" where
  "calculateDurationSmart s now m =
     (let fromLabel = (case m_from m of None \<Rightarrow> initialized s | Some t \<Rightarrow> t);
          toLabel = (case m_to m of None \<Rightarrow> now | Some t \<Rightarrow> t)
      in duration_or (m_duration m) (calculateDuration fromLabel toLabel))"

subsection \<open>Finalization\<close>

text \<open>
  The response. \<open>headersSent\<close> is the flag that the pipeline sets once the headers
  have been transmitted (\<open>res.headersSent\<close> in Express). \<open>headerSent\<close> is the
  condition \<open>response.headerSent\<close> that \<open>addHeaders\<close> tests: false where the object
  has no such property, as is the case for an Express response. \<open>headers\<close> is the
  table that \<open>response.set\<close> writes; a header holds one string or an array of strings.
\<close>

datatype header_value = Str string | Arr "string list"

record response =
  headersSent :: bool
  headerSent :: bool
  headers :: "string \<Rightarrow> header_value option"

definition HEADER_NAME :: string where
  "HEADER_NAME = ''server-timing''"

text \<open>
  \<open>Object.entries\<close> lists the own properties: first the keys that are array indices
  (canonical decimal numbers below \<open>2^32 - 1\<close>) in ascending order, then the other
  keys in the order of their creation.
\<close>

definition isArrayIndex :: "string \<Rightarrow> bool" where
  "isArrayIndex k \<longleftrightarrow>
     k \<noteq> [] \<and> list_all is_digit k \<and> (k = ''0'' \<or> hd k \<noteq> CHR ''0'') \<and> parseInt k < 4294967295"

definition Object_entries :: "entries \<Rightarrow> entries" where
  "Object_entries es =
     sort_key (\<lambda>e. parseInt (fst e)) (filter (\<lambda>e. isArrayIndex (fst e)) es)
     @ filter (\<lambda>e. \<not> isArrayIndex (fst e)) es"

text \<open>
  \<open>this.hooks.sort(...)\<close>: a stable sort by \<open>index\<close>, which rearranges the array of the
  session itself.
\<close>

definition sorted_hooks :: "session \<Rightarrow> hook list" where
  "sorted_hooks s = sort_key index (hooks s)"

text \<open>The \<open>reduce\<close> over the callbacks, started on \<open>this.metrics\<close>.\<close>

definition updatedMetrics :: "session \<Rightarrow> entries" where
  "updatedMetrics s = foldl (\<lambda>ms h. callback h ms) (own (metrics s)) (sorted_hooks s)"

text \<open>
  The value pushed for the \<open>k\<close>-th entry; \<open>now k\<close> is what \<open>process.hrtime()\<close>
  returns there, read when the metric has no end time.
\<close>

definition fragment :: "session \<Rightarrow> (nat \<Rightarrow> hrtime) \<Rightarrow> nat \<Rightarrow> string \<times> metric \<Rightarrow> string" where
  "fragment s now k e =
     buildHeader (fst e) (m_description (snd e)) (m_duration (snd e))
       (case m_from (snd e) of None \<Rightarrow> initialized s | Some t \<Rightarrow> t)
       (case m_to (snd e) of None \<Rightarrow> now k | Some t \<Rightarrow> t)
       (oldSpecification s)"

definition fragments :: "session \<Rightarrow> (nat \<Rightarrow> hrtime) \<Rightarrow> string list" where
  "fragments s now =
     map (\<lambda>(k, e). fragment s now k e) (enumerate 0 (Object_entries (updatedMetrics s)))"

text \<open>The list that goes into the header: an array already there comes first.\<close>

definition merged :: "response \<Rightarrow> string list \<Rightarrow> string list" where
  "merged r fs =
     (case headers r ''server-timing'' of
        Some (Arr xs) \<Rightarrow> if 0 < length xs then xs @ fs else fs
      | _ \<Rightarrow> fs)"

text \<open>
  The constructor binds every method of the prototype to the instance, so
  \<open>this.addHeaders\<close> is a function in every session.
\<close>

definition addHeaders_bound :: "session \<Rightarrow> bool" where
  "addHeaders_bound s = True"

definition addHeaders ::
  "(nat \<Rightarrow> hrtime) \<Rightarrow> session \<Rightarrow> response \<Rightarrow> (session \<times> response) outcome" where
  "addHeaders now s r =
     (if \<not> addHeaders_bound s then Returns (s, r)
      else if headerSent r then Throws HeadersSent (s, r)
      else
        let ms = merged r (fragments s now);
            r' = (if 0 < length ms then r\<lparr>headers := (headers r)(HEADER_NAME \<mapsto> Arr ms)\<rparr> else r)
        in Returns (s\<lparr>hooks := sorted_hooks s, metrics := empty_metrics\<rparr>, r'))"

subsection \<open>The middleware\<close>


text \<open>What a call of \<open>addHeaders\<close> leaves in the header \<open>server-timing\<close>.\<close>

definition written_header :: "(session \<times> response) outcome \<Rightarrow> header_value option" where
  "written_header x =
     (case x of
        Returns p \<Rightarrow> headers (snd p) HEADER_NAME
      | Throws e p \<Rightarrow> headers (snd p) HEADER_NAME
      | Escapes \<Rightarrow> None)"

subsection \<open>Sample inputs\<close>

definition sample_clock :: "nat \<Rightarrow> hrtime" where
  "sample_clock k = (9, 0)"

definition blank_response :: response where
  "blank_response = \<lparr>headersSent = False, headerSent = False, headers = (\<lambda>k. None)\<rparr>"

text \<open>A hand-made response that carries the property \<open>headerSent\<close>.\<close>

definition sent_response :: response where
  "sent_response = \<lparr>headersSent = True, headerSent = True, headers = (\<lambda>k. None)\<rparr>"

text \<open>An Express response after its headers have been sent.\<close>

definition express_sent_response :: response where
  "express_sent_response = \<lparr>headersSent = True, headerSent = False, headers = (\<lambda>k. None)\<rparr>"

definition fresh_session :: session where
  "fresh_session = ServerTiming [] True (0, 0)"

definition db_started :: session where
  "db_started = fresh_session\<lparr>metrics := \<lparr>own = [(''db'', no_fields\<lparr>m_from := Some (2, 0)\<rparr>)], proto = None\<rparr>\<rparr>"

definition backwards_session :: session where
  "backwards_session =
     fresh_session\<lparr>metrics := \<lparr>own = [(''db'', no_fields\<lparr>m_from := Some (2, 0), m_to := Some (1, 0)\<rparr>)], proto = None\<rparr>\<rparr>"

definition zero_session :: session where
  "zero_session =
     fresh_session\<lparr>metrics := \<lparr>own = [(''db'', no_fields\<lparr>m_description := Some ''query'', m_duration := Some 0\<rparr>)], proto = None\<rparr>\<rparr>"


definition five_session :: session where
  "five_session =
     fresh_session\<lparr>metrics := \<lparr>own = [(''db'', no_fields\<lparr>m_duration := Some 5\<rparr>)], proto = None\<rparr>\<rparr>"

definition string_response :: response where
  "string_response = \<lparr>headersSent = False, headerSent = False, headers = (\<lambda>k. None)(''server-timing'' \<mapsto> Str ''cache;dur=1'')\<rparr>"

definition array_response :: response where
  "array_response = \<lparr>headersSent = False, headerSent = False, headers = (\<lambda>k. None)(''server-timing'' \<mapsto> Arr [''cache;dur=1''])\<rparr>"

definition ua_no_version :: string where
  "ua_no_version = ''Mozilla/5.0 Chrome/ Safari/537.36''"

definition ua_chrome62 :: string where
  "ua_chrome62 = ''Mozilla/5.0 Chrome/62.0.3202.94 Safari/537.36''"

definition ua_chrome72 :: string where
  "ua_chrome72 = ''Mozilla/5.0 Chrome/72.0.3626.81 Safari/537.36''"

definition ua_firefox :: string where
  "ua_firefox = ''Mozilla/5.0 Gecko/20100101 Firefox/65.0''"

definition two_hooks :: session where
  "two_hooks = addHook ''second'' tl (Some 0) (addHook ''first'' rev None
     (fresh_session\<lparr>metrics := \<lparr>own = [(''a'', no_fields\<lparr>m_duration := Some 1\<rparr>),
                                        (''b'', no_fields\<lparr>m_duration := Some 2\<rparr>)], proto = None\<rparr>\<rparr>))"

definition proto_session :: session where
  "proto_session =
     fresh_session\<lparr>metrics := \<lparr>own = [],
       proto = Some \<lparr>m_from = None, m_to = None, m_description = Some ''d'', m_duration = Some 123\<rparr>\<rparr>\<rparr>"

section \<open>Properties\<close>

subsection \<open>Evaluation of the basic functions\<close>

lemma nameIsValid_example: "nameIsValid ''db-1'' \<and> \<not> nameIsValid ''a b'' \<and> \<not> nameIsValid ''''"
  by (simp add: nameIsValid_def token_chars_def squote_def digits_def lower_letters_def
      upper_letters_def)

lemma show_int_example: "show_int 123 = ''123'' \<and> show_int (- 1000) = ''-1000'' \<and> show_int 0 = ''0''"
  by (simp add: show_int_def digits_def)

lemma parseInt_example: "parseInt ''72'' = 72"
  by (simp add: parseInt_def digit_value_def digits_def)

text \<open>
  Milliseconds of some timestamps. The sum for \<open>[20000000, 999999999]\<close> is rounded up
  to the next whole number, so that the timestamp has the milliseconds of
  \<open>[20000001, 0]\<close>.
\<close>

lemma toMillis_examples:
  "toMillis (0, 0) = 0 \<and> toMillis (1, 0) = 1000 \<and> toMillis (2, 0) = 2000 \<and>
   toMillis (3, 0) = 3000 \<and> toMillis (9, 0) = 9000 \<and>
   toMillis (0, 999999) = 0 \<and> toMillis (0, 1000000) = 1 \<and> toMillis (3, 141592653) = 3141 \<and>
   toMillis (20000000, 999999999) = 20000001000 \<and> toMillis (20000001, 0) = 20000001000"
  unfolding toMillis_def Let_def fst_conv snd_conv
  by (simp add: round53_def double_1e_6_def Let_def)

lemma calculateDuration_examples:
  "calculateDuration (2, 0) (1, 0) = 1000 \<and>
   calculateDuration (20000000, 999999999) (20000001, 0) = 0"
  by (simp add: calculateDuration_def toMillis_examples)

subsection \<open>Rejected names\<close>

lemma set_op_InvalidName:
  "set_op name f s = Throws InvalidName s' \<longleftrightarrow> \<not> nameIsValid name \<and> s' = s"
  by (auto simp: set_op_def split: resolved.splits)

lemma then_describe_InvalidName:
  "then_describe name d (set_op name f s) = Throws InvalidName s' \<longleftrightarrow>
     \<not> nameIsValid name \<and> s' = s"
proof (cases "nameIsValid name")
  case False
  then show ?thesis by (auto simp: then_describe_def set_op_def)
next
  case True
  have "set_op name f s \<noteq> Throws InvalidName s'"
    using True by (simp add: set_op_InvalidName)
  moreover have "\<And>t u. description name t u \<noteq> Throws InvalidName s'"
    using True by (simp add: description_def set_op_InvalidName)
  ultimately show ?thesis
    using True by (auto simp: then_describe_def split: outcome.splits option.splits)
qed

lemma add_InvalidName:
  "add name d n s = Throws InvalidName s' \<longleftrightarrow> \<not> nameIsValid name \<and> s' = s"
  by (auto simp: add_def Let_def)

lemma nameIsValid_grammar:
  "nameIsValid name \<longleftrightarrow> name \<noteq> [] \<and> set name \<subseteq> set token_chars"
  by (auto simp: nameIsValid_def list_all_iff)

text \<open>
  Claim C5. A name is valid exactly when it is not empty and consists of the
  characters \<open>!#$%&'*+-.^_`|~\<close>, digits and letters. Each of \<open>from\<close>, \<open>to\<close>,
  \<open>description\<close>, \<open>duration\<close> and \<open>add\<close> throws the error \<open>InvalidName\<close> exactly when
  the name is not valid, and the session is then what it was before the call: nothing
  is written, also not the description handed to \<open>from\<close> or \<open>to\<close>.
\<close>

theorem invalid_name_rejected_without_mutation:
  "(nameIsValid name \<longleftrightarrow>
      name \<noteq> [] \<and>
      set name \<subseteq> set (''!#$%&'' @ [squote] @ ''*+-.^_`|~'' @ ''0123456789''
                        @ ''abcdefghijklmnopqrstuvwxyz'' @ ''ABCDEFGHIJKLMNOPQRSTUVWXYZ'')) \<and>
   (from_op name d t s = Throws InvalidName s' \<longleftrightarrow> \<not> nameIsValid name \<and> s' = s) \<and>
   (to_op name d t s = Throws InvalidName s' \<longleftrightarrow> \<not> nameIsValid name \<and> s' = s) \<and>
   (description name x s = Throws InvalidName s' \<longleftrightarrow> \<not> nameIsValid name \<and> s' = s) \<and>
   (duration name v s = Throws InvalidName s' \<longleftrightarrow> \<not> nameIsValid name \<and> s' = s) \<and>
   (add name d n s = Throws InvalidName s' \<longleftrightarrow> \<not> nameIsValid name \<and> s' = s)"
proof -
  have "token_chars = ''!#$%&'' @ [squote] @ ''*+-.^_`|~'' @ ''0123456789''
          @ ''abcdefghijklmnopqrstuvwxyz'' @ ''ABCDEFGHIJKLMNOPQRSTUVWXYZ''"
    by (simp add: token_chars_def digits_def lower_letters_def upper_letters_def)
  then have grammar: "nameIsValid name \<longleftrightarrow>
      name \<noteq> [] \<and>
      set name \<subseteq> set (''!#$%&'' @ [squote] @ ''*+-.^_`|~'' @ ''0123456789''
                        @ ''abcdefghijklmnopqrstuvwxyz'' @ ''ABCDEFGHIJKLMNOPQRSTUVWXYZ'')"
    using nameIsValid_grammar [of name] by simp
  have ops: "(from_op name d t s = Throws InvalidName s' \<longleftrightarrow> \<not> nameIsValid name \<and> s' = s) \<and>
   (to_op name d t s = Throws InvalidName s' \<longleftrightarrow> \<not> nameIsValid name \<and> s' = s) \<and>
   (description name x s = Throws InvalidName s' \<longleftrightarrow> \<not> nameIsValid name \<and> s' = s) \<and>
   (duration name v s = Throws InvalidName s' \<longleftrightarrow> \<not> nameIsValid name \<and> s' = s) \<and>
   (add name d n s = Throws InvalidName s' \<longleftrightarrow> \<not> nameIsValid name \<and> s' = s)"
    by (simp add: from_op_def to_op_def description_def duration_def
        then_describe_InvalidName set_op_InvalidName add_InvalidName)
  from grammar ops show ?thesis by blast
qed

theorem invalid_name_rejected_witness:
  "\<not> nameIsValid ''a b'' \<and>
   from_op ''a b'' (Some ''text'') (1, 0) fresh_session = Throws InvalidName fresh_session \<and>
   add ''a b'' (Some ''text'') (Some 5) fresh_session = Throws InvalidName fresh_session \<and>
   (\<forall>s'. from_op ''db'' (Some ''text'') (1, 0) fresh_session \<noteq> Throws InvalidName s')"
proof -
  have invalid: "\<not> nameIsValid ''a b''"
    by (simp add: nameIsValid_def token_chars_def squote_def digits_def lower_letters_def
        upper_letters_def)
  have valid: "nameIsValid ''db''"
    by (simp add: nameIsValid_def token_chars_def squote_def digits_def lower_letters_def
        upper_letters_def)
  show ?thesis
    using invalid valid
      invalid_name_rejected_without_mutation
        [of "''a b''" "Some ''text''" "(1, 0)" fresh_session fresh_session]
      invalid_name_rejected_without_mutation [of "''db''" "Some ''text''" "(1, 0)" fresh_session]
    by simp
qed

subsection \<open>Evaluation rules\<close>

lemmas char_defs = squote_def dquote_def digits_def lower_letters_def upper_letters_def token_chars_def

lemmas recording_defs = from_op_def to_op_def description_def duration_def then_describe_def
  set_op_def add_def resolve_def inherited_def nameIsValid_def no_fields_def empty_metrics_def
  object_prototype_methods_def

lemmas rendering_defs = fragments_def fragment_def buildHeader_def duration_or_def
  calculateDuration_def toMillis_examples newStyle_def oldStyle_def show_int_def
  Object_entries_def isArrayIndex_def is_digit_def parseInt_def digit_value_def
  updatedMetrics_def sorted_hooks_def

lemmas finalization_defs = addHeaders_def addHeaders_bound_def merged_def HEADER_NAME_def
  written_header_def

lemmas constructor_defs = ServerTiming_def isChrome_def isCanary_def chromeVersion_def
  chrome_at_def canon_def line_terminator_def

lemmas sample_defs = fresh_session_def blank_response_def sent_response_def sample_clock_def

subsection \<open>Finalization writes the fragments\<close>

lemma length_fragments: "length (fragments s now) = length (Object_entries (updatedMetrics s))"
  by (simp add: fragments_def)

lemma fragments_nth:
  "k < length (Object_entries (updatedMetrics s)) \<Longrightarrow>
   fragments s now ! k = fragment s now k (Object_entries (updatedMetrics s) ! k)"
  by (simp add: fragments_def nth_enumerate_eq)

lemma addHeaders_not_sent:
  "\<not> headerSent r \<Longrightarrow>
   addHeaders now s r =
     Returns (s\<lparr>hooks := sorted_hooks s, metrics := empty_metrics\<rparr>,
       if merged r (fragments s now) = [] then r
       else r\<lparr>headers := (headers r)(HEADER_NAME \<mapsto> Arr (merged r (fragments s now)))\<rparr>)"
  by (simp add: addHeaders_def addHeaders_bound_def Let_def)

lemma merged_empty_iff: "merged r fs = [] \<longleftrightarrow> fs = [] \<and> (\<forall>xs. headers r ''server-timing'' = Some (Arr xs) \<longrightarrow> xs = [])"
  by (auto simp: merged_def split: option.splits header_value.splits)

lemma written_header_not_sent:
  "\<not> headerSent r \<Longrightarrow> fragments s now \<noteq> [] \<Longrightarrow>
   written_header (addHeaders now s r) = Some (Arr (merged r (fragments s now)))"
  by (simp add: addHeaders_not_sent written_header_def merged_empty_iff)

text \<open>
  Claim C1, as amended. When a metric has both \<open>from\<close> and \<open>to\<close> and no duration, the
  duration in its fragment is the absolute value of \<open>toMillis(to) - toMillis(from)\<close>, not
  the signed difference: \<open>calculateDuration\<close> applies \<open>Math.abs\<close>, also on the path of
  \<open>buildHeader\<close>. \<open>toMillis [s, ns]\<close> is the truncation of \<open>s * 1e3 + ns * 1e-6\<close> as
  the code computes it. The fragment is part of the header written by the finalization.
\<close>

theorem timestamp_duration_is_absolute:
  assumes "k < length (Object_entries (updatedMetrics s))"
    and "Object_entries (updatedMetrics s) ! k = (n, m)"
    and "m_from m = Some f" and "m_to m = Some t" and "m_duration m = None"
    and "\<not> headerSent r"
  shows "fragments s now ! k =
          (if oldSpecification s
           then oldStyle n (m_description m) (Some \<bar>toMillis t - toMillis f\<bar>)
           else newStyle n (m_description m) (Some \<bar>toMillis t - toMillis f\<bar>)) \<and>
         written_header (addHeaders now s r) = Some (Arr (merged r (fragments s now)))"
proof -
  have "fragments s now ! k = fragment s now k (n, m)"
    using assms(1,2) by (simp add: fragments_nth)
  then have a: "fragments s now ! k =
          (if oldSpecification s
           then oldStyle n (m_description m) (Some \<bar>toMillis t - toMillis f\<bar>)
           else newStyle n (m_description m) (Some \<bar>toMillis t - toMillis f\<bar>))"
    using assms(3,4,5)
    by (simp add: fragment_def buildHeader_def duration_or_def calculateDuration_def)
  have "fragments s now \<noteq> []"
    using assms(1) length_fragments [of s now] by auto
  then have b: "written_header (addHeaders now s r) = Some (Arr (merged r (fragments s now)))"
    using assms(6) by (rule written_header_not_sent [rotated])
  show ?thesis using a b by simp
qed

theorem timestamp_duration_witness:
  "fragments backwards_session sample_clock ! 0 = ''db;dur=1000'' \<and>
   written_header (addHeaders sample_clock backwards_session blank_response)
     = Some (Arr [''db;dur=1000''])"
proof -
  have e: "Object_entries (updatedMetrics backwards_session)
      = [(''db'', no_fields\<lparr>m_from := Some (2, 0), m_to := Some (1, 0)\<rparr>)]"
    by (simp add: backwards_session_def sample_defs char_defs rendering_defs constructor_defs)
  have o: "\<not> oldSpecification backwards_session"
    by (simp add: backwards_session_def sample_defs constructor_defs)
  have m: "merged blank_response fs = fs" for fs
    by (simp add: merged_def blank_response_def)
  have f1: "fragments backwards_session sample_clock = [fragments backwards_session sample_clock ! 0]"
    using length_fragments [of backwards_session sample_clock] e
    by (cases "fragments backwards_session sample_clock") auto
  have h: "\<not> headerSent blank_response" by (simp add: blank_response_def)
  show ?thesis
    using timestamp_duration_is_absolute [of 0 backwards_session "''db''"
        "no_fields\<lparr>m_from := Some (2, 0), m_to := Some (1, 0)\<rparr>" "(2, 0)" "(1, 0)"
        blank_response sample_clock] e o m f1 h
    by (simp add: no_fields_def newStyle_def toMillis_examples show_int_def char_defs)
qed

text \<open>
  The claim as stated fails: with \<open>from\<close> at 2 s and \<open>to\<close> at 1 s the header carries
  \<open>db;dur=1000\<close>, whereas the signed difference is \<open>-1000\<close>.
\<close>

theorem signed_duration_counterexample:
  "from_op ''db'' None (2, 0) fresh_session = Returns db_started \<and>
   to_op ''db'' None (1, 0) db_started = Returns backwards_session \<and>
   written_header (addHeaders sample_clock backwards_session blank_response)
     = Some (Arr [''db;dur=1000'']) \<and>
   toMillis (1, 0) - toMillis (2, 0) = - 1000 \<and>
   newStyle ''db'' None (Some (toMillis (1, 0) - toMillis (2, 0))) = ''db;dur=-1000''"
  by (simp add: db_started_def backwards_session_def sample_defs char_defs recording_defs
      rendering_defs finalization_defs constructor_defs Let_def enumerate_eq_zip)

subsection \<open>Explicit durations\<close>

lemma nonzero_duration_overrides:
  "v \<noteq> 0 \<Longrightarrow>
   buildHeader name d (Some v) f t old =
     (if old then oldStyle name d (Some v) else newStyle name d (Some v)) \<and>
   (m_duration m = Some v \<longrightarrow> calculateDurationSmart s now m = v)"
  by (simp add: buildHeader_def calculateDurationSmart_def duration_or_def)

text \<open>
  Claim C2, at the duration 0. An explicit duration of zero does not take precedence:
  \<open>duration || ...\<close> treats it as missing, so \<open>buildHeader\<close> and
  \<open>calculateDurationSmart\<close> compute the duration from the timestamps, and a metric
  added with the default duration is rendered with the time since the session began.
\<close>

theorem zero_duration_is_recomputed:
  "buildHeader ''db'' None (Some 0) (1, 0) (3, 0) False = ''db;dur=2000'' \<and>
   calculateDurationSmart fresh_session (9, 0)
     \<lparr>m_from = Some (1, 0), m_to = Some (3, 0), m_description = None, m_duration = Some 0\<rparr> = 2000 \<and>
   add ''db'' (Some ''query'') None fresh_session = Returns zero_session \<and>
   written_header (addHeaders sample_clock zero_session blank_response)
     = Some (Arr [''db;desc='' @ [dquote] @ ''query'' @ [dquote] @ '';dur=9000''])"
  by (simp add: zero_session_def calculateDurationSmart_def sample_defs char_defs recording_defs
      rendering_defs finalization_defs constructor_defs Let_def enumerate_eq_zip)

subsection \<open>Headers already sent\<close>

text \<open>
  \<open>addHeaders\<close> throws exactly when the condition \<open>response.headerSent\<close> holds, and
  then leaves the session and the response as they were. The flag \<open>headersSent\<close> has
  no part in it.
\<close>

lemma addHeaders_throws_iff:
  "addHeaders now s r = Throws e p \<longleftrightarrow> headerSent r \<and> e = HeadersSent \<and> p = (s, r)"
  by (auto simp: addHeaders_def addHeaders_bound_def Let_def)

lemma addHeaders_on_hand_made_response:
  "addHeaders sample_clock backwards_session sent_response
     = Throws HeadersSent (backwards_session, sent_response)"
  by (simp add: addHeaders_throws_iff sent_response_def)

lemma addHeaders_ignores_headersSent:
  "\<not> headerSent r \<Longrightarrow>
   addHeaders now s (r\<lparr>headersSent := True\<rparr>) =
     Returns (s\<lparr>hooks := sorted_hooks s, metrics := empty_metrics\<rparr>,
       if merged r (fragments s now) = [] then r\<lparr>headersSent := True\<rparr>
       else r\<lparr>headersSent := True,
              headers := (headers r)(HEADER_NAME \<mapsto> Arr (merged r (fragments s now)))\<rparr>)"
  by (simp add: addHeaders_not_sent merged_def)

text \<open>
  Claim C4, on an Express response whose headers have been sent. The flag of such a
  response is \<open>headersSent\<close>; the property \<open>headerSent\<close> that \<open>addHeaders\<close> reads does
  not exist on it. The call throws nothing: it sets the header \<open>server-timing\<close> and
  clears the metrics.
\<close>

theorem sent_express_response_is_finalized:
  "headersSent express_sent_response \<and>
   own (metrics five_session) = [(''db'', no_fields\<lparr>m_duration := Some 5\<rparr>)] \<and>
   addHeaders sample_clock five_session express_sent_response =
     Returns (fresh_session,
       express_sent_response\<lparr>headers := (\<lambda>k. None)(HEADER_NAME \<mapsto> Arr [''db;dur=5''])\<rparr>) \<and>
   metrics fresh_session = empty_metrics"
  by (simp add: five_session_def express_sent_response_def sample_defs char_defs rendering_defs
      finalization_defs constructor_defs no_fields_def Let_def enumerate_eq_zip)

subsection \<open>The option \<open>sendHeaders\<close>\<close>





subsection \<open>What finalization changes\<close>

lemma sorted_hooks_idem: "sort_key index (sorted_hooks s) = sorted_hooks s"
  by (simp add: sorted_hooks_def sort_key_id_if_sorted)

lemma merged_no_fragments:
  "r\<lparr>headers := (headers r)(HEADER_NAME \<mapsto> Arr (merged r []))\<rparr> = r" if "merged r [] \<noteq> []"
proof -
  from that obtain xs where "headers r ''server-timing'' = Some (Arr xs)" and "merged r [] = xs"
    by (auto simp: merged_def split: option.splits header_value.splits if_splits)
  then have "(headers r)(HEADER_NAME \<mapsto> Arr (merged r [])) = headers r"
    by (auto simp: HEADER_NAME_def)
  then show ?thesis by simp
qed

lemma fragments_after_finalization:
  "fragments (s\<lparr>hooks := sorted_hooks s, metrics := empty_metrics\<rparr>) now
     = map (\<lambda>(k, e). fragment s now k e)
         (enumerate 0 (Object_entries (foldl (\<lambda>ms h. callback h ms) [] (sorted_hooks s))))"
proof -
  have "fragment (s\<lparr>hooks := sorted_hooks s, metrics := empty_metrics\<rparr>) now = fragment s now"
    by (simp add: fragment_def fun_eq_iff cong: option.case_cong)
  then show ?thesis
    by (simp add: fragments_def updatedMetrics_def sorted_hooks_def empty_metrics_def
        sort_key_id_if_sorted)
qed

text \<open>
  Claim C7. A finalization that succeeds empties the metrics, keeps the hooks (the
  same hooks, possibly rearranged) and the other fields of the session, and sets the
  header \<open>server-timing\<close> to the merged list when fragments were rendered; when none
  was rendered the response is what it was. A second finalization, with hooks that
  turn the empty mapping into the empty mapping, renders no fragment and changes
  nothing.
\<close>

theorem finalization_resets_metrics_only:
  assumes "\<not> headerSent r"
  shows "\<exists>s' r'. addHeaders now s r = Returns (s', r') \<and>
           metrics s' = empty_metrics \<and>
           mset (hooks s') = mset (hooks s) \<and>
           oldSpecification s' = oldSpecification s \<and>
           initialized s' = initialized s \<and>
           sendHeaders s' = sendHeaders s \<and>
           \<not> headerSent r' \<and>
           (fragments s now = [] \<longrightarrow> r' = r) \<and>
           (fragments s now \<noteq> [] \<longrightarrow>
              headers r' = (headers r)(HEADER_NAME \<mapsto> Arr (merged r (fragments s now)))) \<and>
           (foldl (\<lambda>ms h. callback h ms) [] (sorted_hooks s) = [] \<longrightarrow>
              fragments s' later = [] \<and> addHeaders later s' r' = Returns (s', r'))"
proof -
  define s' where "s' = s\<lparr>hooks := sorted_hooks s, metrics := empty_metrics\<rparr>"
  define r' where "r' = (if merged r (fragments s now) = [] then r
       else r\<lparr>headers := (headers r)(HEADER_NAME \<mapsto> Arr (merged r (fragments s now)))\<rparr>)"
  have run: "addHeaders now s r = Returns (s', r')"
    using assms by (simp add: addHeaders_not_sent s'_def r'_def)
  have sent: "\<not> headerSent r'"
    using assms by (simp add: r'_def)
  have untouched: "r' = r" if "fragments s now = []"
    using that merged_no_fragments [of r] by (auto simp: r'_def)
  have written: "headers r' = (headers r)(HEADER_NAME \<mapsto> Arr (merged r (fragments s now)))"
    if "fragments s now \<noteq> []"
    using that by (simp add: r'_def merged_empty_iff)
  have again: "fragments s' later = [] \<and> addHeaders later s' r' = Returns (s', r')"
    if none: "foldl (\<lambda>ms h. callback h ms) [] (sorted_hooks s) = []"
  proof -
    have f: "fragments s' later = []"
      using none by (simp add: s'_def fragments_after_finalization Object_entries_def)
    have "sorted_hooks s' = hooks s'"
      by (simp add: s'_def sorted_hooks_def sort_key_id_if_sorted)
    then have same: "s'\<lparr>hooks := sorted_hooks s', metrics := empty_metrics\<rparr> = s'"
      by (simp add: s'_def)
    have "addHeaders later s' r' =
        Returns (s'\<lparr>hooks := sorted_hooks s', metrics := empty_metrics\<rparr>,
          if merged r' [] = [] then r'
          else r'\<lparr>headers := (headers r')(HEADER_NAME \<mapsto> Arr (merged r' []))\<rparr>)"
      using sent f addHeaders_not_sent [of r' later s'] by simp
    also have "(if merged r' [] = [] then r'
           else r'\<lparr>headers := (headers r')(HEADER_NAME \<mapsto> Arr (merged r' []))\<rparr>) = r'"
      using merged_no_fragments [of r'] by auto
    finally show ?thesis
      using f same by simp
  qed
  have "mset (hooks s') = mset (hooks s)"
    by (simp add: s'_def sorted_hooks_def)
  then show ?thesis
    using run sent untouched written again by (intro exI [of _ s'] exI [of _ r']) (simp add: s'_def)
qed

theorem finalization_resets_metrics_witness:
  "addHeaders sample_clock five_session blank_response
     = Returns (fresh_session, blank_response\<lparr>headers := (\<lambda>k. None)(HEADER_NAME \<mapsto> Arr [''db;dur=5''])\<rparr>) \<and>
   addHeaders sample_clock fresh_session
       (blank_response\<lparr>headers := (\<lambda>k. None)(HEADER_NAME \<mapsto> Arr [''db;dur=5''])\<rparr>)
     = Returns (fresh_session, blank_response\<lparr>headers := (\<lambda>k. None)(HEADER_NAME \<mapsto> Arr [''db;dur=5''])\<rparr>)"
proof -
  have h: "\<not> headerSent blank_response" by (simp add: blank_response_def)
  have f: "fragments five_session sample_clock = [''db;dur=5'']"
    by (simp add: five_session_def sample_defs char_defs rendering_defs constructor_defs
        no_fields_def Let_def enumerate_eq_zip)
  have m: "merged blank_response fs = fs" for fs
    by (simp add: merged_def blank_response_def)
  have n: "foldl (\<lambda>ms h. callback h ms) [] (sorted_hooks five_session) = []"
    by (simp add: five_session_def sample_defs sorted_hooks_def constructor_defs)
  have e: "s' = fresh_session"
    if "metrics s' = empty_metrics" "mset (hooks s') = mset (hooks five_session)"
      "oldSpecification s' = oldSpecification five_session"
      "initialized s' = initialized five_session" "sendHeaders s' = sendHeaders five_session"
    for s' :: session
    using that by (cases s') (simp add: five_session_def fresh_session_def ServerTiming_def)
  obtain s' r' where
    "addHeaders sample_clock five_session blank_response = Returns (s', r')"
    "metrics s' = empty_metrics" "mset (hooks s') = mset (hooks five_session)"
    "oldSpecification s' = oldSpecification five_session"
    "initialized s' = initialized five_session" "sendHeaders s' = sendHeaders five_session"
    "headers r' = (headers blank_response)(HEADER_NAME \<mapsto> Arr (merged blank_response (fragments five_session sample_clock)))"
    "addHeaders sample_clock s' r' = Returns (s', r')"
    using finalization_resets_metrics_only [OF h, of sample_clock five_session sample_clock] f n
    by auto
  moreover from this have "s' = fresh_session" by (intro e)
  moreover have "r' = blank_response\<lparr>headers := (\<lambda>k. None)(HEADER_NAME \<mapsto> Arr [''db;dur=5''])\<rparr>"
    using calculation(1,7) h f m
    by (simp add: addHeaders_not_sent blank_response_def)
  ultimately show ?thesis by simp
qed

subsection \<open>Values already in the header\<close>

text \<open>
  Claim C8, as amended. When the header \<open>server-timing\<close> of the response holds a
  non-empty array, the header written is that array followed by the new fragments.
  A value that is a single string is not kept: the new fragments replace it when there
  is at least one, and it stays when there is none.
\<close>

theorem existing_array_is_kept:
  assumes "\<not> headerSent r"
  shows "(\<forall>xs. headers r ''server-timing'' = Some (Arr xs) \<and> xs \<noteq> [] \<longrightarrow>
            written_header (addHeaders now s r) = Some (Arr (xs @ fragments s now))) \<and>
         (\<forall>x. headers r ''server-timing'' = Some (Str x) \<longrightarrow>
            written_header (addHeaders now s r)
              = (if fragments s now = [] then Some (Str x) else Some (Arr (fragments s now))))"
  using assms
  by (auto simp: addHeaders_not_sent written_header_def merged_def HEADER_NAME_def)

theorem existing_array_is_kept_witness:
  "written_header (addHeaders sample_clock five_session array_response)
     = Some (Arr [''cache;dur=1'', ''db;dur=5''])"
proof -
  have h: "\<not> headerSent array_response" by (simp add: array_response_def)
  have f: "fragments five_session sample_clock = [''db;dur=5'']"
    by (simp add: five_session_def sample_defs char_defs rendering_defs constructor_defs
        no_fields_def Let_def enumerate_eq_zip)
  have a: "headers array_response ''server-timing'' = Some (Arr [''cache;dur=1''])"
    by (simp add: array_response_def)
  show ?thesis
    using existing_array_is_kept [OF h, of sample_clock five_session] f a by simp
qed

text \<open>
  The claim as stated fails for a header that holds the string \<open>cache;dur=1\<close>: after
  the finalization the header holds the new fragment alone.
\<close>

theorem existing_string_is_dropped:
  "headers string_response ''server-timing'' = Some (Str ''cache;dur=1'') \<and>
   written_header (addHeaders sample_clock five_session string_response)
     = Some (Arr [''db;dur=5''])"
  by (simp add: five_session_def string_response_def sample_defs char_defs rendering_defs
      finalization_defs constructor_defs no_fields_def Let_def enumerate_eq_zip)

subsection \<open>The legacy format flag\<close>

lemma indexOf_found_iff: "indexOf_found pat s \<longleftrightarrow> (\<exists>pre post. s = pre @ pat @ post)"
proof (induction s)
  case Nil
  then show ?case by simp
next
  case (Cons c cs)
  show ?case
  proof
    assume "indexOf_found pat (c # cs)"
    then consider "take (length pat) (c # cs) = pat" | "indexOf_found pat cs" by auto
    then show "\<exists>pre post. c # cs = pre @ pat @ post"
    proof cases
      case 1
      then have "c # cs = [] @ pat @ drop (length pat) (c # cs)"
        by (metis append_Nil append_take_drop_id)
      then show ?thesis by blast
    next
      case 2
      then obtain pre post where "cs = pre @ pat @ post" using Cons.IH by blast
      then have "c # cs = (c # pre) @ pat @ post" by simp
      then show ?thesis by blast
    qed
  next
    assume "\<exists>pre post. c # cs = pre @ pat @ post"
    then obtain pre post where eq: "c # cs = pre @ pat @ post" by blast
    show "indexOf_found pat (c # cs)"
    proof (cases pre)
      case Nil
      then have "take (length pat) (c # cs) = pat" using eq by simp
      then show ?thesis by simp
    next
      case (Cons p pre')
      then have "cs = pre' @ pat @ post" using eq by simp
      then show ?thesis using Cons.IH by auto
    qed
  qed
qed

lemma chromeData_leftmost:
  "chromeData ua = Some ds \<longleftrightarrow>
     (\<exists>i\<le>length ua. chrome_at (drop i ua) = Some ds \<and> (\<forall>j<i. chrome_at (drop j ua) = None))"
proof (induction ua)
  case Nil
  then show ?case by (simp add: chrome_at_def)
next
  case (Cons c cs)
  show ?case
  proof (cases "chrome_at (c # cs)")
    case (Some x)
    have "(\<exists>i\<le>length (c # cs). chrome_at (drop i (c # cs)) = Some ds \<and>
            (\<forall>j<i. chrome_at (drop j (c # cs)) = None)) \<longleftrightarrow> x = ds"
    proof
      assume "\<exists>i\<le>length (c # cs). chrome_at (drop i (c # cs)) = Some ds \<and>
            (\<forall>j<i. chrome_at (drop j (c # cs)) = None)"
      then obtain i where i: "chrome_at (drop i (c # cs)) = Some ds"
        "\<forall>j<i. chrome_at (drop j (c # cs)) = None" by blast
      have "i = 0"
      proof (rule ccontr)
        assume "i \<noteq> 0"
        then have "chrome_at (drop 0 (c # cs)) = None" using i(2) by blast
        then show False using Some by simp
      qed
      then show "x = ds" using i(1) Some by simp
    next
      assume "x = ds"
      then have "chrome_at (drop 0 (c # cs)) = Some ds \<and> (\<forall>j<0. chrome_at (drop j (c # cs)) = None)"
        using Some by simp
      then show "\<exists>i\<le>length (c # cs). chrome_at (drop i (c # cs)) = Some ds \<and>
            (\<forall>j<i. chrome_at (drop j (c # cs)) = None)" by blast
    qed
    then show ?thesis using Some by simp
  next
    case None
    have "(\<exists>i\<le>length (c # cs). chrome_at (drop i (c # cs)) = Some ds \<and>
            (\<forall>j<i. chrome_at (drop j (c # cs)) = None)) \<longleftrightarrow>
          (\<exists>i\<le>length cs. chrome_at (drop i cs) = Some ds \<and> (\<forall>j<i. chrome_at (drop j cs) = None))"
    proof
      assume "\<exists>i\<le>length (c # cs). chrome_at (drop i (c # cs)) = Some ds \<and>
            (\<forall>j<i. chrome_at (drop j (c # cs)) = None)"
      then obtain i where i: "i \<le> length (c # cs)" "chrome_at (drop i (c # cs)) = Some ds"
        "\<forall>j<i. chrome_at (drop j (c # cs)) = None" by blast
      then obtain k where k: "i = Suc k" using None by (cases i) auto
      have "\<forall>j<k. chrome_at (drop j cs) = None"
      proof (intro allI impI)
        fix j assume "j < k"
        then have "Suc j < i" using k by simp
        then have "chrome_at (drop (Suc j) (c # cs)) = None" using i(3) by blast
        then show "chrome_at (drop j cs) = None" by simp
      qed
      then show "\<exists>i\<le>length cs. chrome_at (drop i cs) = Some ds \<and> (\<forall>j<i. chrome_at (drop j cs) = None)"
        using i(1,2) k by auto
    next
      assume "\<exists>i\<le>length cs. chrome_at (drop i cs) = Some ds \<and> (\<forall>j<i. chrome_at (drop j cs) = None)"
      then obtain i where i: "i \<le> length cs" "chrome_at (drop i cs) = Some ds"
        "\<forall>j<i. chrome_at (drop j cs) = None" by blast
      have "\<forall>j<Suc i. chrome_at (drop j (c # cs)) = None"
      proof (intro allI impI)
        fix j assume j: "j < Suc i"
        show "chrome_at (drop j (c # cs)) = None"
        proof (cases j)
          case 0
          then show ?thesis using None by simp
        next
          case (Suc j')
          then show ?thesis using i(3) j by simp
        qed
      qed
      then have "Suc i \<le> length (c # cs) \<and> chrome_at (drop (Suc i) (c # cs)) = Some ds \<and>
          (\<forall>j<Suc i. chrome_at (drop j (c # cs)) = None)"
        using i(1,2) by simp
      then show "\<exists>i\<le>length (c # cs). chrome_at (drop i (c # cs)) = Some ds \<and>
            (\<forall>j<i. chrome_at (drop j (c # cs)) = None)" by blast
    qed
    then show ?thesis using None Cons.IH by simp
  qed
qed

lemma chromeData_samples:
  "chromeData ua_no_version = None \<and> chromeData ua_chrome62 = Some ''62'' \<and>
   chromeData ua_chrome72 = Some ''72'' \<and> chromeData ua_firefox = None"
  by (simp add: ua_no_version_def ua_chrome62_def ua_chrome72_def ua_firefox_def
      chrome_at_def canon_def line_terminator_def is_digit_def char_defs)

lemma isChrome_samples:
  "isChrome ua_no_version \<and> isChrome ua_chrome62 \<and> isChrome ua_chrome72 \<and> \<not> isChrome ua_firefox"
  by (simp add: isChrome_def ua_no_version_def ua_chrome62_def ua_chrome72_def ua_firefox_def)

lemma chromeData_gives_back_a_digit: "chromeData '' Chrome/72'' = Some ''7''"
  by (simp add: chrome_at_def canon_def line_terminator_def is_digit_def char_defs)

text \<open>
  Claim C3, as amended. The flag \<open>oldSpecification\<close> is true exactly when the user
  agent contains the text \<open> Chrome/\<close> and the regular expression either has no match
  or yields, at its leftmost match, a version of at most 64. So a user agent with the
  token and no version that the expression can read gets the legacy format, and one
  without the token gets the current format.
\<close>

theorem legacy_flag:
  "(oldSpecification (ServerTiming ua send t0) \<longleftrightarrow>
      (\<exists>pre post. ua = pre @ '' Chrome/'' @ post) \<and>
      (case chromeData ua of None \<Rightarrow> True | Some ds \<Rightarrow> parseInt ds \<le> 64)) \<and>
   (chromeData ua = Some ds \<longleftrightarrow>
      (\<exists>i\<le>length ua. chrome_at (drop i ua) = Some ds \<and> (\<forall>j<i. chrome_at (drop j ua) = None)))"
proof -
  have "oldSpecification (ServerTiming ua send t0) \<longleftrightarrow>
      isChrome ua \<and> (case chromeData ua of None \<Rightarrow> True | Some ds \<Rightarrow> parseInt ds \<le> 64)"
    by (auto simp: ServerTiming_def isCanary_def chromeVersion_def split: option.splits)
  then show ?thesis
    using chromeData_leftmost [of ua ds] by (simp add: isChrome_def indexOf_found_iff)
qed

theorem legacy_flag_witness:
  "oldSpecification (ServerTiming ua_chrome62 True (0, 0)) \<and>
   \<not> oldSpecification (ServerTiming ua_chrome72 True (0, 0)) \<and>
   \<not> oldSpecification (ServerTiming ua_firefox True (0, 0)) \<and>
   oldSpecification (ServerTiming ua_no_version True (0, 0))"
  using legacy_flag [of ua_chrome62 True "(0, 0)"] legacy_flag [of ua_chrome72 True "(0, 0)"]
    legacy_flag [of ua_firefox True "(0, 0)"] legacy_flag [of ua_no_version True "(0, 0)"]
    chromeData_samples isChrome_samples
  by (simp add: isChrome_def indexOf_found_iff parseInt_def digit_value_def digits_def)

text \<open>
  The claim as stated fails: \<open>Mozilla/5.0 Chrome/ Safari/537.36\<close> contains the token,
  the expression has no match, and the flag is true.
\<close>

theorem legacy_without_version_counterexample:
  "isChrome ua_no_version \<and> chromeData ua_no_version = None \<and>
   oldSpecification (ServerTiming ua_no_version True (0, 0))"
  using chromeData_samples isChrome_samples
  by (simp add: ServerTiming_def isCanary_def chromeVersion_def)


subsection \<open>Order of the hooks\<close>

lemma sorted_hooks_before:
  assumes "a \<in> set (hooks s)" and "b \<in> set (hooks s)" and "index b < index a"
  shows "\<exists>ps qs rs. sorted_hooks s = ps @ b # qs @ a # rs"
proof -
  have a: "a \<in> set (sorted_hooks s)" and b: "b \<in> set (sorted_hooks s)"
    using assms(1,2) by (simp_all add: sorted_hooks_def)
  from a obtain front rs where split: "sorted_hooks s = front @ a # rs"
    by (meson split_list)
  have "sorted (map index (front @ a # rs))"
    using split [symmetric] by (simp add: sorted_hooks_def)
  then have "\<forall>h\<in>set rs. index a \<le> index h"
    by (auto simp: sorted_append)
  then have "b \<notin> set rs" using assms(3) by auto
  moreover have "b \<noteq> a" using assms(3) by auto
  ultimately have "b \<in> set front" using b split by auto
  then obtain ps qs where "front = ps @ b # qs" by (meson split_list)
  then show ?thesis using split by auto
qed

text \<open>
  Claim C6. \<open>addHook\<close> appends the hook, with the index \<open>hooks.length + 1\<close> when none
  is given. A finalization applies the hooks in the order of a stable sort by index:
  ascending, hooks of equal index in the order of the array; it leaves the array of
  the session in that order. The callbacks are folded over the metrics in that order,
  and the header that the finalization writes is rendered from the result of the fold.
  Hence a hook whose index is lower than that of another one runs before it, whenever
  it was registered: the callback of the other is applied to a mapping that has
  already passed through it.
\<close>

theorem hooks_run_in_index_order:
  assumes "\<not> headerSent r"
  shows
   "hooks (addHook name cb None s)
      = hooks s @ [\<lparr>hook_name = name, callback = cb, index = int (length (hooks s)) + 1\<rparr>] \<and>
    hooks (addHook name cb (Some i) s) = hooks s @ [\<lparr>hook_name = name, callback = cb, index = i\<rparr>] \<and>
    (\<exists>applied rendered s' r'.
       sorted (map index applied) \<and>
       mset applied = mset (hooks s) \<and>
       (\<forall>k. filter (\<lambda>h. index h = k) applied = filter (\<lambda>h. index h = k) (hooks s)) \<and>
       rendered =
         map (\<lambda>(k, e). fragment s now k e)
           (enumerate 0 (Object_entries
             (foldl (\<lambda>ms h. callback h ms) (own (metrics s)) applied))) \<and>
       addHeaders now s r = Returns (s', r') \<and>
       hooks s' = applied \<and>
       (rendered \<noteq> [] \<longrightarrow> headers r' HEADER_NAME = Some (Arr (merged r rendered))) \<and>
       (rendered = [] \<longrightarrow> r' = r) \<and>
       (\<forall>a b. a \<in> set (hooks s) \<and> b \<in> set (hooks s) \<and> index b < index a \<longrightarrow>
          (\<exists>ps qs rs. applied = ps @ b # qs @ a # rs \<and>
             foldl (\<lambda>ms h. callback h ms) (own (metrics s)) applied =
               foldl (\<lambda>ms h. callback h ms)
                 (callback a (foldl (\<lambda>ms h. callback h ms)
                    (callback b (foldl (\<lambda>ms h. callback h ms) (own (metrics s)) ps)) qs)) rs)))"
proof -
  define applied where "applied = sorted_hooks s"
  define rendered where "rendered =
         map (\<lambda>(k, e). fragment s now k e)
           (enumerate 0 (Object_entries
             (foldl (\<lambda>ms h. callback h ms) (own (metrics s)) applied)))"
  define s' where "s' = s\<lparr>hooks := sorted_hooks s, metrics := empty_metrics\<rparr>"
  define r' where "r' = (if merged r (fragments s now) = [] then r
       else r\<lparr>headers := (headers r)(HEADER_NAME \<mapsto> Arr (merged r (fragments s now)))\<rparr>)"
  have frs: "fragments s now = rendered"
    by (simp add: rendered_def applied_def fragments_def updatedMetrics_def)
  have run: "addHeaders now s r = Returns (s', r')"
    using assms by (simp add: addHeaders_not_sent s'_def r'_def)
  have order: "sorted (map index applied)" "mset applied = mset (hooks s)"
    "\<forall>k. filter (\<lambda>h. index h = k) applied = filter (\<lambda>h. index h = k) (hooks s)"
    by (simp_all add: applied_def sorted_hooks_def sort_key_stable)
  have written: "headers r' HEADER_NAME = Some (Arr (merged r rendered))" if "rendered \<noteq> []"
    using that frs by (simp add: r'_def merged_empty_iff)
  have untouched: "r' = r" if "rendered = []"
    using that frs merged_no_fragments [of r] by (auto simp: r'_def)
  have before: "\<exists>ps qs rs. applied = ps @ b # qs @ a # rs \<and>
             foldl (\<lambda>ms h. callback h ms) (own (metrics s)) applied =
               foldl (\<lambda>ms h. callback h ms)
                 (callback a (foldl (\<lambda>ms h. callback h ms)
                    (callback b (foldl (\<lambda>ms h. callback h ms) (own (metrics s)) ps)) qs)) rs"
    if "a \<in> set (hooks s) \<and> b \<in> set (hooks s) \<and> index b < index a" for a b
  proof -
    from that obtain ps qs rs where "applied = ps @ b # qs @ a # rs"
      using sorted_hooks_before unfolding applied_def by blast
    then show ?thesis by auto
  qed
  have kept: "hooks s' = applied"
    by (simp add: s'_def applied_def)
  have "\<exists>applied rendered s' r'.
       sorted (map index applied) \<and>
       mset applied = mset (hooks s) \<and>
       (\<forall>k. filter (\<lambda>h. index h = k) applied = filter (\<lambda>h. index h = k) (hooks s)) \<and>
       rendered =
         map (\<lambda>(k, e). fragment s now k e)
           (enumerate 0 (Object_entries
             (foldl (\<lambda>ms h. callback h ms) (own (metrics s)) applied))) \<and>
       addHeaders now s r = Returns (s', r') \<and>
       hooks s' = applied \<and>
       (rendered \<noteq> [] \<longrightarrow> headers r' HEADER_NAME = Some (Arr (merged r rendered))) \<and>
       (rendered = [] \<longrightarrow> r' = r) \<and>
       (\<forall>a b. a \<in> set (hooks s) \<and> b \<in> set (hooks s) \<and> index b < index a \<longrightarrow>
          (\<exists>ps qs rs. applied = ps @ b # qs @ a # rs \<and>
             foldl (\<lambda>ms h. callback h ms) (own (metrics s)) applied =
               foldl (\<lambda>ms h. callback h ms)
                 (callback a (foldl (\<lambda>ms h. callback h ms)
                    (callback b (foldl (\<lambda>ms h. callback h ms) (own (metrics s)) ps)) qs)) rs))"
  proof (rule exI [of _ applied], rule exI [of _ rendered], rule exI [of _ s'],
      rule exI [of _ r'], intro conjI)
    show "sorted (map index applied)" by (rule order(1))
    show "mset applied = mset (hooks s)" by (rule order(2))
    show "\<forall>k. filter (\<lambda>h. index h = k) applied = filter (\<lambda>h. index h = k) (hooks s)"
      by (rule order(3))
    show "rendered =
         map (\<lambda>(k, e). fragment s now k e)
           (enumerate 0 (Object_entries
             (foldl (\<lambda>ms h. callback h ms) (own (metrics s)) applied)))"
      by (rule rendered_def)
    show "addHeaders now s r = Returns (s', r')" by (rule run)
    show "hooks s' = applied" by (rule kept)
    show "rendered \<noteq> [] \<longrightarrow> headers r' HEADER_NAME = Some (Arr (merged r rendered))"
      using written by blast
    show "rendered = [] \<longrightarrow> r' = r"
      using untouched by blast
    show "\<forall>a b. a \<in> set (hooks s) \<and> b \<in> set (hooks s) \<and> index b < index a \<longrightarrow>
          (\<exists>ps qs rs. applied = ps @ b # qs @ a # rs \<and>
             foldl (\<lambda>ms h. callback h ms) (own (metrics s)) applied =
               foldl (\<lambda>ms h. callback h ms)
                 (callback a (foldl (\<lambda>ms h. callback h ms)
                    (callback b (foldl (\<lambda>ms h. callback h ms) (own (metrics s)) ps)) qs)) rs)"
      using before by blast
  qed
  moreover have "hooks (addHook name cb None s)
      = hooks s @ [\<lparr>hook_name = name, callback = cb, index = int (length (hooks s)) + 1\<rparr>]"
    by (simp add: addHook_def)
  moreover have "hooks (addHook name cb (Some i) s)
      = hooks s @ [\<lparr>hook_name = name, callback = cb, index = i\<rparr>]"
    by (simp add: addHook_def)
  ultimately show ?thesis by blast
qed

theorem hooks_run_in_index_order_witness:
  "\<not> headerSent blank_response \<and>
   map hook_name (hooks two_hooks) = [''first'', ''second''] \<and>
   map index (hooks two_hooks) = [1, 0] \<and>
   written_header (addHeaders sample_clock two_hooks blank_response) = Some (Arr [''b;dur=2''])"
proof -
  let ?base = "fresh_session\<lparr>metrics := \<lparr>own = [(''a'', no_fields\<lparr>m_duration := Some 1\<rparr>),
                                        (''b'', no_fields\<lparr>m_duration := Some 2\<rparr>)], proto = None\<rparr>\<rparr>"
  have sent: "\<not> headerSent blank_response"
    by (simp add: blank_response_def)
  have h: "hooks two_hooks = [\<lparr>hook_name = ''first'', callback = rev, index = 1\<rparr>,
      \<lparr>hook_name = ''second'', callback = tl, index = 0\<rparr>]"
    using hooks_run_in_index_order [OF sent, of "''first''" rev ?base]
      hooks_run_in_index_order [OF sent, of "''second''" tl "addHook ''first'' rev None ?base" 0]
    by (simp add: two_hooks_def fresh_session_def ServerTiming_def)
  have m: "own (metrics two_hooks) = [(''a'', no_fields\<lparr>m_duration := Some 1\<rparr>),
                                        (''b'', no_fields\<lparr>m_duration := Some 2\<rparr>)]"
    by (simp add: two_hooks_def addHook_def)
  have o: "\<not> oldSpecification two_hooks" "initialized two_hooks = (0, 0)"
    by (simp_all add: two_hooks_def addHook_def fresh_session_def constructor_defs)
  obtain applied rendered s' r' where facts:
    "rendered = map (\<lambda>(k, e). fragment two_hooks sample_clock k e)
           (enumerate 0 (Object_entries
             (foldl (\<lambda>ms h. callback h ms) (own (metrics two_hooks)) applied)))"
    "addHeaders sample_clock two_hooks blank_response = Returns (s', r')"
    "hooks s' = applied"
    "rendered \<noteq> [] \<longrightarrow> headers r' HEADER_NAME = Some (Arr (merged blank_response rendered))"
    using hooks_run_in_index_order [OF sent, of _ _ two_hooks _ sample_clock, THEN conjunct2,
        THEN conjunct2]
    apply (elim exE conjE)
    apply (rule that; assumption)
    done
  have "s' = two_hooks\<lparr>hooks := sorted_hooks two_hooks, metrics := empty_metrics\<rparr>"
    using facts(2) sent by (simp add: addHeaders_not_sent)
  then have a: "applied = [\<lparr>hook_name = ''second'', callback = tl, index = 0\<rparr>,
      \<lparr>hook_name = ''first'', callback = rev, index = 1\<rparr>]"
    using facts(3) h by (simp add: sorted_hooks_def)
  have r: "rendered = [''b;dur=2'']"
    using facts(1) a m o
    by (simp add: Object_entries_def isArrayIndex_def is_digit_def digits_def fragment_def
        buildHeader_def duration_or_def newStyle_def show_int_def no_fields_def enumerate_eq_zip)
  have "merged blank_response rendered = rendered"
    by (simp add: merged_def blank_response_def)
  then show ?thesis
    using sent h facts(2,4) r by (simp add: written_header_def)
qed

subsection \<open>\<open>add\<close> followed by finalization\<close>

lemma map_of_put: "map_of (put k v es) k = Some v"
  by (induction es) auto

lemma put_in_set: "(k, v) \<in> set (put k v es)"
  by (induction es) auto

lemma set_Object_entries: "set (Object_entries es) = set es"
  by (auto simp: Object_entries_def)

lemma show_int_123: "show_int 123 = ''123''"
  by (simp add: show_int_def digits_def)

lemma add_then_finalize:
  assumes "nameIsValid n" and "n \<noteq> ''__proto__''" and "hooks s = []" and "\<not> headerSent r"
  shows "\<exists>s' k. add n (Some d) (Some 123) s = Returns s' \<and>
           map_of (own (metrics s')) n
             = Some \<lparr>m_from = None, m_to = None, m_description = Some d, m_duration = Some 123\<rparr> \<and>
           k < length (fragments s' now) \<and>
           fst (Object_entries (own (metrics s')) ! k) = n \<and>
           fragments s' now ! k =
             (if oldSpecification s then n @ ''=123; '' @ [dquote] @ d @ [dquote]
              else n @ '';desc='' @ [dquote] @ d @ [dquote] @ '';dur=123'') \<and>
           written_header (addHeaders now s' r) = Some (Arr (merged r (fragments s' now)))"
proof -
  define m where "m = \<lparr>m_from = None, m_to = None, m_description = Some d, m_duration = Some 123\<rparr>"
  define s' where "s' = s\<lparr>metrics := (metrics s)\<lparr>own := put n m (own (metrics s))\<rparr>\<rparr>"
  have run: "add n (Some d) (Some 123) s = Returns s'"
    using assms(1,2) by (simp add: add_def s'_def m_def)
  have stored: "map_of (own (metrics s')) n = Some m"
    by (simp add: s'_def map_of_put)
  have upd: "updatedMetrics s' = own (metrics s')"
    using assms(3) by (simp add: updatedMetrics_def sorted_hooks_def s'_def)
  have "(n, m) \<in> set (Object_entries (own (metrics s')))"
    by (simp add: set_Object_entries s'_def put_in_set)
  then obtain k where k: "k < length (Object_entries (own (metrics s')))"
    "Object_entries (own (metrics s')) ! k = (n, m)"
    by (auto simp: in_set_conv_nth)
  have len: "k < length (fragments s' now)"
    using k(1) upd by (simp add: length_fragments)
  have "fragments s' now ! k = fragment s' now k (n, m)"
    using k upd fragments_nth [of k s' now] by simp
  also have "\<dots> = (if oldSpecification s then n @ ''=123; '' @ [dquote] @ d @ [dquote]
              else n @ '';desc='' @ [dquote] @ d @ [dquote] @ '';dur=123'')"
    by (simp add: fragment_def buildHeader_def duration_or_def oldStyle_def newStyle_def
        show_int_123 m_def s'_def)
  finally have frag: "fragments s' now ! k =
     (if oldSpecification s then n @ ''=123; '' @ [dquote] @ d @ [dquote]
              else n @ '';desc='' @ [dquote] @ d @ [dquote] @ '';dur=123'')" .
  have "fragments s' now \<noteq> []" using len by auto
  then have "written_header (addHeaders now s' r) = Some (Arr (merged r (fragments s' now)))"
    using assms(4) by (simp add: written_header_not_sent)
  then show ?thesis
    using run stored len k(2) frag unfolding m_def by (intro exI [of _ s'] exI [of _ k]) simp
qed

text \<open>
  Claim C9, at the name \<open>__proto__\<close>. The name is a valid token, but
  \<open>add('__proto__', 'd', 123)\<close> creates no metric: the assignment installs the new
  object as the prototype of \<open>this.metrics\<close>, and the finalization that follows
  renders no fragment and writes no header. For every other valid name the fragment
  is as claimed (\<open>add_then_finalize\<close>).
\<close>

theorem proto_name_is_not_recorded:
  "nameIsValid ''__proto__'' \<and>
   add ''__proto__'' (Some ''d'') (Some 123) fresh_session = Returns proto_session \<and>
   own (metrics proto_session) = [] \<and>
   fragments proto_session sample_clock = [] \<and>
   written_header (addHeaders sample_clock proto_session blank_response) = None"
  by (simp add: proto_session_def sample_defs char_defs recording_defs rendering_defs
      finalization_defs constructor_defs Let_def)

subsection \<open>Writes that leave the session\<close>

text \<open>
  \<open>set\<close> reaches \<open>Object.prototype\<close> in one case only: the name \<open>__proto__\<close>, while
  \<open>this.metrics\<close> has no own property of that name and still has its initial
  prototype. \<open>add\<close> and \<open>addHeaders\<close> never do.
\<close>

lemma set_op_Escapes:
  "set_op name f s = Escapes \<longleftrightarrow>
     name = ''__proto__'' \<and> map_of (own (metrics s)) name = None \<and> proto (metrics s) = None"
proof -
  have "nameIsValid ''__proto__''"
    by (simp add: nameIsValid_def char_defs)
  then show ?thesis
    by (auto simp: set_op_def resolve_def inherited_def split: option.splits resolved.splits)
qed

lemma add_contained: "add name d n s \<noteq> Escapes"
  by (simp add: add_def Let_def)

lemma addHeaders_contained: "addHeaders now s r \<noteq> Escapes"
  by (simp add: addHeaders_def Let_def)

end
